theory Spec2Isabelle
  imports Main "HOL-Library.Multiset"
begin

section \<open>The Python built-ins that main.py relies on\<close>

text \<open>
  Strings are lists of characters; a character stands for the code point of the same
  number (0 to 255). Exceptions are values: a computation that can raise returns
  \<open>py_error + 'a\<close>, with \<open>Inl\<close> carrying the exception.
\<close>

datatype py_error = ValueError | IndexError | TypeError | FileNotFoundError | AttributeError

text \<open>A list comprehension whose element expression can raise: the first exception wins.\<close>

fun try_map :: "('a \<Rightarrow> py_error + 'b) \<Rightarrow> 'a list \<Rightarrow> py_error + 'b list" where
  "try_map f [] = Inr []"
| "try_map f (x # xs) =
     (case f x of
        Inl e \<Rightarrow> Inl e
      | Inr y \<Rightarrow> (case try_map f xs of Inl e \<Rightarrow> Inl e | Inr ys \<Rightarrow> Inr (y # ys)))"

text \<open>\<open>s.split(sep)\<close> for a one-character separator: never empty, one more part than separators.\<close>

fun py_split :: "char \<Rightarrow> string \<Rightarrow> string list" where
  "py_split sep [] = [[]]"
| "py_split sep (c # cs) =
     (if c = sep then [] # py_split sep cs
      else (c # hd (py_split sep cs)) # tl (py_split sep cs))"

text \<open>\<open>sep.join(parts)\<close>.\<close>

fun py_join :: "string \<Rightarrow> string list \<Rightarrow> string" where
  "py_join sep [] = []"
| "py_join sep [x] = x"
| "py_join sep (x # y # ys) = x @ sep @ py_join sep (y # ys)"

text \<open>\<open>xs[i]\<close>: a negative index counts from the end, \<open>None\<close> as index is a TypeError.\<close>

definition py_getitem :: "'a list \<Rightarrow> int option \<Rightarrow> py_error + 'a" where
  "py_getitem xs idx =
     (case idx of
        None \<Rightarrow> Inl TypeError
      | Some i \<Rightarrow>
          if 0 \<le> i \<and> i < int (length xs) then Inr (xs ! nat i)
          else if i < 0 \<and> - int (length xs) \<le> i then Inr (xs ! nat (int (length xs) + i))
          else Inl IndexError)"

text \<open>\<open>str.isspace\<close> on one character, and \<open>s.strip()\<close>.\<close>

definition is_space :: "char \<Rightarrow> bool" where
  "is_space c =
     (let n = (of_char c :: nat)
      in (9 \<le> n \<and> n \<le> 13) \<or> (28 \<le> n \<and> n \<le> 32) \<or> n = 133 \<or> n = 160)"

definition py_strip :: "string \<Rightarrow> string" where
  "py_strip s = rev (dropWhile is_space (rev (dropWhile is_space s)))"

text \<open>
  \<open>int(s)\<close> in base 10: blanks around the literal are skipped (the separators 28 to 31
  are blanks for \<open>strip\<close> but not for \<open>int\<close>), then an optional sign, then decimal
  digits in which single underscores may stand between two digits. More than
  \<open>int_max_str_digits\<close> digits are refused (the interpreter's default limit).
\<close>

definition is_int_space :: "char \<Rightarrow> bool" where
  "is_int_space c =
     (let n = (of_char c :: nat)
      in (9 \<le> n \<and> n \<le> 13) \<or> n = 32 \<or> n = 133 \<or> n = 160)"

definition is_digit :: "char \<Rightarrow> bool" where
  "is_digit c = (let n = (of_char c :: nat) in 48 \<le> n \<and> n \<le> 57)"

definition digit_val :: "char \<Rightarrow> int" where
  "digit_val c = int (of_char c) - 48"

fun drop_underscores :: "string \<Rightarrow> string option" where
  "drop_underscores [] = None"
| "drop_underscores [c] = (if is_digit c then Some [c] else None)"
| "drop_underscores (c # d # cs) =
     (if \<not> is_digit c then None
      else if d = CHR ''_'' then map_option ((#) c) (drop_underscores cs)
      else map_option ((#) c) (drop_underscores (d # cs)))"

definition int_max_str_digits :: nat where
  "int_max_str_digits = 4300"

definition py_int :: "string \<Rightarrow> py_error + int" where
  "py_int s =
     (let t = rev (dropWhile is_int_space (rev (dropWhile is_int_space s)));
          (sign, body) =
            (case t of
               [] \<Rightarrow> (1, [])
             | c # cs \<Rightarrow>
                 if c = CHR ''-'' then (- 1, cs)
                 else if c = CHR ''+'' then (1, cs)
                 else (1, t))
      in case drop_underscores body of
           None \<Rightarrow> Inl ValueError
         | Some ds \<Rightarrow>
             if length ds > int_max_str_digits then Inl ValueError
             else Inr (sign * foldl (\<lambda>acc c. 10 * acc + digit_val c) 0 ds))"

text \<open>
  \<open>sorted(xs, key=f)\<close>: the key of every element is computed first, in list order (the
  first exception wins); the elements are then sorted by key, and the sort is stable.
\<close>

definition py_sorted :: "('a \<Rightarrow> py_error + int) \<Rightarrow> 'a list \<Rightarrow> py_error + 'a list" where
  "py_sorted f xs =
     (case try_map f xs of
        Inl e \<Rightarrow> Inl e
      | Inr ks \<Rightarrow> Inr (map snd (sort_key fst (zip ks xs))))"

section \<open>Logging and the line source\<close>

datatype level = INFO | WARNING | ERROR | CRITICAL

type_synonym log = "(level \<times> string) list"

text \<open>
  An argument passed as \<open>path\<close>: a \<open>Path\<close> object, or anything else (with its text as an
  f-string prints it). The file system maps a path to what \<open>readlines\<close> returns there.
\<close>

datatype path_arg = Path string | NotAPath string

fun path_str :: "path_arg \<Rightarrow> string" where
  "path_str (Path p) = p"
| "path_str (NotAPath p) = p"

type_synonym files = "string \<Rightarrow> string list option"

text \<open>The body of \<open>read_file\<close>, before decoration.\<close>

definition read_file_body :: "files \<Rightarrow> string \<Rightarrow> bool \<Rightarrow> py_error + string list" where
  "read_file_body fs path strip_whitespace =
     (case fs path of
        None \<Rightarrow> Inl FileNotFoundError
      | Some data \<Rightarrow> Inr (if strip_whitespace then map py_strip data else data))"

text \<open>
  The decorator: \<open>None\<close> for an invalid path and for a file with no lines, the lines
  otherwise. The messages logged on the way are returned with the result.
\<close>

definition log_read_file ::
  "(string \<Rightarrow> bool \<Rightarrow> py_error + string list) \<Rightarrow> path_arg \<Rightarrow> bool
     \<Rightarrow> log \<times> (py_error + string list option)" where
  "log_read_file read_file_func path strip_whitespace =
     (let l = [(INFO, ''Attempting to read file '' @ path_str path)]
      in case path of
           NotAPath _ \<Rightarrow>
             (l @ [(ERROR, ''Invalid path. Provide a valid Path object.'')], Inr None)
         | Path p \<Rightarrow>
             (case read_file_func p strip_whitespace of
                Inl e \<Rightarrow> (l, Inl e)
              | Inr lines \<Rightarrow>
                  if lines = [] then
                    (l @ [(WARNING, ''File, '' @ p @ '' is empty.'')], Inr None)
                  else
                    (l @ [(INFO, ''Successfully read file '' @ p)], Inr (Some lines))))"

definition read_file :: "files \<Rightarrow> path_arg \<Rightarrow> bool \<Rightarrow> log \<times> (py_error + string list option)" where
  "read_file fs = log_read_file (read_file_body fs)"

section \<open>The core: columns, rows, composition\<close>

record csv =
  data :: "string list"
  row_count :: int

text \<open>\<open>not xs\<close> for an argument that is \<open>None\<close> or a list.\<close>

fun falsy :: "'a list option \<Rightarrow> bool" where
  "falsy None = True"
| "falsy (Some xs) = (xs = [])"

definition compose_csv_data :: "string list option \<Rightarrow> string list option \<Rightarrow> log \<times> csv option" where
  "compose_csv_data dat cols =
     (if falsy dat \<or> falsy cols then
        ([(ERROR, ''Provide valid data and columns.'')], None)
      else
        (let result = the cols @ the dat
         in ([], Some \<lparr>data = result, row_count = int (length result)\<rparr>)))"

definition sort_by :: "string list \<Rightarrow> int option \<Rightarrow> py_error + string list" where
  "sort_by dat key_index =
     py_sorted
       (\<lambda>item. case py_getitem (py_split CHR ''|'' item) key_index of
                 Inl e \<Rightarrow> Inl e
               | Inr seg \<Rightarrow> py_int seg)
       dat"

definition prep_cols :: "string list \<Rightarrow> py_error + string list" where
  "prep_cols cols =
     (case sort_by cols (Some 0) of
        Inl e \<Rightarrow> Inl e
      | Inr cols_sorted \<Rightarrow>
          try_map (\<lambda>col. py_getitem (py_split CHR ''|'' col) (Some 1)) cols_sorted)"

definition prep_data :: "string list \<Rightarrow> string list" where
  "prep_data dat = map (\<lambda>row. py_join '','' (py_split CHR ''|'' row)) dat"

section \<open>The entry point\<close>

text \<open>
  The module constants are the run's configuration. The paths and the name of the output
  file (which holds a fresh UUID) differ from run to run; the expected number of data rows
  is 1000 in the source.
\<close>

record config =
  source_columns :: string
  source_data :: string
  dest_data_filename :: string
  expected_row_count :: int

definition EXPECTED_ROW_COUNT :: int where
  "EXPECTED_ROW_COUNT = 1000"

text \<open>
  What a run leaves behind: how it ended, what it logged, the file it wrote (name and
  content) and the name it handed to the storage library's \<open>load_csv\<close>.
\<close>

datatype halt = Completed | SysExit | Raised py_error

record outcome =
  halted :: halt
  logged :: log
  written :: "(string \<times> string) option"
  loaded :: "string option"

definition stop :: "halt \<Rightarrow> log \<Rightarrow> outcome" where
  "stop h l = \<lparr>halted = h, logged = l, written = None, loaded = None\<rparr>"

text \<open>The comparison of the row count verification.\<close>

definition row_count_mismatch :: "int \<Rightarrow> int \<Rightarrow> bool" where
  "row_count_mismatch rc expected = ((rc - 1) \<noteq> expected)"

definition main :: "config \<Rightarrow> files \<Rightarrow> outcome" where
  "main cfg fs =
     (let l0 = [(INFO, ''Beginning the ETL process...'')];
          (l1, r1) = read_file fs (Path (source_columns cfg)) True
      in case r1 of
           Inl e \<Rightarrow> stop (Raised e) (l0 @ l1)
         | Inr None \<Rightarrow> stop SysExit (l0 @ l1)
         | Inr (Some cols) \<Rightarrow>
      (case prep_cols cols of
           Inl e \<Rightarrow> stop (Raised e) (l0 @ l1)
         | Inr names \<Rightarrow>
      (let prepped_cols_names = [py_join '','' names];
           (l2, r2) = read_file fs (Path (source_data cfg)) True
       in case r2 of
           Inl e \<Rightarrow> stop (Raised e) (l0 @ l1 @ l2)
         | Inr None \<Rightarrow> stop SysExit (l0 @ l1 @ l2)
         | Inr (Some source_data_lines) \<Rightarrow>
      (let l3 = l0 @ l1 @ l2 @ [(INFO, ''Prepping source data...'')];
           prepped_source_data = prep_data source_data_lines;
           l4 = l3 @ [(INFO, ''Composing CSV file...'')];
           (l5, composed) = compose_csv_data (Some prepped_source_data) (Some prepped_cols_names)
       in case composed of
           None \<Rightarrow> stop (Raised AttributeError) (l4 @ l5)
         | Some r \<Rightarrow>
      (let l6 = l4 @ l5 @ [(INFO, ''Writing CSV data to file...'')];
           w = Some (dest_data_filename cfg, py_join [CHR 0x0A] (data r));
           l7 = l6 @ [(INFO, ''Running row count verification...'')]
       in if row_count_mismatch (row_count r) (expected_row_count cfg) then
            \<lparr>halted = SysExit,
             logged = l7 @ [(CRITICAL, ''Row counts between source data and CSV file not matching!'')],
             written = w, loaded = None\<rparr>
          else
            \<lparr>halted = Completed,
             logged = l7 @
               [(INFO, ''Row count verification succeeeded...''),
                (INFO, ''Attempting to move CSV file to destination...''),
                (INFO, ''Successfully moved file '' @ dest_data_filename cfg @ ''...''),
                (INFO, ''ETL process complete...'')],
             written = w, loaded = Some (dest_data_filename cfg)\<rparr>)))))"

section \<open>Notions used to state the properties\<close>

text \<open>
  The number of pipe delimiters of a line, the segment before the first pipe, whether a
  text is accepted by \<open>int\<close>, the integer a line's first segment stands for, and the
  segment after the first pipe.
\<close>

definition pipes :: "string \<Rightarrow> nat" where
  "pipes l = count_list l CHR ''|''"

definition first_segment :: "string \<Rightarrow> string" where
  "first_segment l = hd (py_split CHR ''|'' l)"

definition parses :: "string \<Rightarrow> bool" where
  "parses s = (case py_int s of Inl _ \<Rightarrow> False | Inr _ \<Rightarrow> True)"

definition ordinal :: "string \<Rightarrow> int" where
  "ordinal l = (case py_int (first_segment l) of Inl _ \<Rightarrow> 0 | Inr k \<Rightarrow> k)"

definition name_part :: "string \<Rightarrow> string" where
  "name_part l = py_split CHR ''|'' l ! 1"

section \<open>Facts about the built-ins\<close>

lemma py_split_not_Nil: "py_split c s \<noteq> []"
  by (induction s) auto

lemma length_py_split: "length (py_split c s) = Suc (count_list s c)"
proof (induction s)
  case Nil
  show ?case by simp
next
  case (Cons x xs)
  have "length (tl (py_split c xs)) = count_list xs c"
    using Cons by simp
  with Cons show ?case by simp
qed

lemma try_map_all_Inr: "\<forall>x\<in>set xs. f x = Inr (g x) \<Longrightarrow> try_map f xs = Inr (map g xs)"
  by (induction xs) auto

lemma try_map_some_Inl:
  "\<forall>x\<in>set xs. f x = Inl e \<or> (\<exists>y. f x = Inr y) \<Longrightarrow> \<exists>x\<in>set xs. f x = Inl e \<Longrightarrow> try_map f xs = Inl e"
proof (induction xs)
  case Nil
  then show ?case by simp
next
  case (Cons x xs)
  show ?case
  proof (cases "f x")
    case (Inl a)
    with Cons.prems(1) have "a = e" by auto
    with Inl show ?thesis by simp
  next
    case (Inr y)
    with Cons.prems have "\<exists>x\<in>set xs. f x = Inl e" by auto
    with Cons have "try_map f xs = Inl e" by simp
    with Inr show ?thesis by simp
  qed
qed

lemma insort_key_decorated:
  "\<forall>p\<in>set ps. fst p = g (snd p) \<Longrightarrow>
   map snd (insort_key fst (g x, x) ps) = insort_key g x (map snd ps)"
  by (induction ps) auto

lemma sort_key_decorated: "map snd (sort_key fst (zip (map g xs) xs)) = sort_key g xs"
proof (induction xs)
  case Nil
  show ?case by simp
next
  case (Cons x xs)
  have "\<forall>p\<in>set (sort_key fst (zip (map g xs) xs)). fst p = g (snd p)"
    by (auto simp: in_set_zip)
  then show ?case using Cons by (simp add: insort_key_decorated)
qed

lemma py_sorted_ok:
  "\<forall>x\<in>set xs. f x = Inr (g x) \<Longrightarrow> py_sorted f xs = Inr (sort_key g xs)"
proof -
  assume "\<forall>x\<in>set xs. f x = Inr (g x)"
  then have "try_map f xs = Inr (map g xs)" by (rule try_map_all_Inr)
  then show ?thesis by (simp add: py_sorted_def sort_key_decorated)
qed

lemma py_getitem_0: "xs \<noteq> [] \<Longrightarrow> py_getitem xs (Some 0) = Inr (hd xs)"
  by (cases xs) (auto simp: py_getitem_def)

lemma py_getitem_1: "py_getitem xs (Some 1) = (if 2 \<le> length xs then Inr (xs ! 1) else Inl IndexError)"
  by (auto simp: py_getitem_def)

lemma sort_key_index0: "py_getitem (py_split CHR ''|'' l) (Some 0) = Inr (first_segment l)"
  by (simp add: py_getitem_0 py_split_not_Nil first_segment_def)

lemma py_int_error: "py_int s = Inl e \<Longrightarrow> e = ValueError"
  by (auto simp: py_int_def Let_def split: prod.splits option.splits if_splits)

lemma parses_ordinal: "parses (first_segment l) \<Longrightarrow> py_int (first_segment l) = Inr (ordinal l)"
  by (auto simp: parses_def ordinal_def split: sum.splits)

lemma not_parses: "\<not> parses s \<Longrightarrow> py_int s = Inl ValueError"
  using py_int_error by (auto simp: parses_def split: sum.splits)

lemma sort_by_ok:
  assumes "\<forall>l\<in>set cols. parses (first_segment l)"
  shows "sort_by cols (Some 0) = Inr (sort_key ordinal cols)"
  unfolding sort_by_def
  by (rule py_sorted_ok) (use assms in \<open>simp add: sort_key_index0 parses_ordinal\<close>)

lemma sort_by_fails:
  assumes "\<exists>l\<in>set cols. \<not> parses (first_segment l)"
  shows "sort_by cols (Some 0) = Inl ValueError"
proof -
  let ?f = "\<lambda>item. case py_getitem (py_split CHR ''|'' item) (Some 0) of
                 Inl e \<Rightarrow> Inl e | Inr seg \<Rightarrow> py_int seg"
  have f: "?f l = py_int (first_segment l)" for l
    by (simp add: sort_key_index0)
  have "\<forall>x\<in>set cols. ?f x = Inl ValueError \<or> (\<exists>y. ?f x = Inr y)"
    unfolding f using py_int_error by (metis sum.exhaust)
  moreover have "\<exists>x\<in>set cols. ?f x = Inl ValueError"
    unfolding f using assms not_parses by blast
  ultimately have "try_map ?f cols = Inl ValueError"
    by (rule try_map_some_Inl)
  then show ?thesis by (simp add: sort_by_def py_sorted_def)
qed

lemma prep_cols_ok:
  assumes "\<forall>l\<in>set cols. parses (first_segment l) \<and> 1 \<le> pipes l"
  shows "prep_cols cols = Inr (map name_part (sort_key ordinal cols))"
proof -
  have "sort_by cols (Some 0) = Inr (sort_key ordinal cols)"
    using assms by (simp add: sort_by_ok)
  moreover have "try_map (\<lambda>col. py_getitem (py_split CHR ''|'' col) (Some 1)) (sort_key ordinal cols)
      = Inr (map name_part (sort_key ordinal cols))"
    by (rule try_map_all_Inr)
       (use assms in \<open>simp add: py_getitem_1 length_py_split pipes_def name_part_def\<close>)
  ultimately show ?thesis by (simp add: prep_cols_def)
qed

lemma prep_cols_no_pipe:
  assumes "\<forall>l\<in>set cols. parses (first_segment l)" and "\<exists>l\<in>set cols. pipes l = 0"
  shows "prep_cols cols = Inl IndexError"
proof -
  let ?f = "\<lambda>col. py_getitem (py_split CHR ''|'' col) (Some 1)"
  have "sort_by cols (Some 0) = Inr (sort_key ordinal cols)"
    using assms by (simp add: sort_by_ok)
  moreover have "try_map ?f (sort_key ordinal cols) = Inl IndexError"
  proof (rule try_map_some_Inl)
    show "\<forall>x\<in>set (sort_key ordinal cols). ?f x = Inl IndexError \<or> (\<exists>y. ?f x = Inr y)"
      by (simp add: py_getitem_1)
    show "\<exists>x\<in>set (sort_key ordinal cols). ?f x = Inl IndexError"
    proof -
      from assms(2) obtain l where "l \<in> set cols" "pipes l = 0" by blast
      then have "l \<in> set (sort_key ordinal cols)" "?f l = Inl IndexError"
        by (simp_all add: py_getitem_1 length_py_split pipes_def)
      then show ?thesis by blast
    qed
  qed
  ultimately show ?thesis by (simp add: prep_cols_def)
qed

lemma prep_cols_unparseable:
  assumes "\<exists>l\<in>set cols. \<not> parses (first_segment l)"
  shows "prep_cols cols = Inl ValueError"
  using sort_by_fails [OF assms] by (simp add: prep_cols_def)

lemmas eval_defs = prep_cols_def sort_by_def py_sorted_def py_getitem_def py_int_def
  is_int_space_def is_digit_def digit_val_def int_max_str_digits_def prep_data_def
  compose_csv_data_def row_count_mismatch_def

lemma py_join_Cons_char: "py_join sep ((x # h) # t) = x # py_join sep (h # t)"
  by (cases t) auto

lemma py_join_py_split:
  "py_join [c'] (py_split c s) = map (\<lambda>x. if x = c then c' else x) s"
proof (induction s)
  case Nil
  show ?case by simp
next
  case (Cons x xs)
  obtain h t where ht: "py_split c xs = h # t"
    using py_split_not_Nil [of c xs] by (cases "py_split c xs") auto
  show ?case
  proof (cases "x = c")
    case True
    then show ?thesis using Cons ht by simp
  next
    case False
    then show ?thesis using Cons ht by (simp add: py_join_Cons_char)
  qed
qed

lemma py_split_replaced:
  "c' \<notin> set s \<Longrightarrow> py_split c' (map (\<lambda>x. if x = c then c' else x) s) = py_split c s"
  by (induction s) auto

lemma count_list_replaced:
  "c \<noteq> c' \<Longrightarrow> count_list (map (\<lambda>x. if x = c then c' else x) s) c' = count_list s c + count_list s c'"
  by (induction s) auto

lemma prep_data_nth:
  "i < length dat \<Longrightarrow> prep_data dat ! i = map (\<lambda>x. if x = CHR ''|'' then CHR '','' else x) (dat ! i)"
  by (simp add: prep_data_def py_join_py_split)

section \<open>The entry point, branch by branch\<close>

lemma read_file_missing:
  "fs p = None \<Longrightarrow>
   read_file fs (Path p) True = ([(INFO, ''Attempting to read file '' @ p)], Inl FileNotFoundError)"
  by (simp add: read_file_def log_read_file_def read_file_body_def)

lemma read_file_empty:
  "fs p = Some [] \<Longrightarrow>
   read_file fs (Path p) True
     = ([(INFO, ''Attempting to read file '' @ p), (WARNING, ''File, '' @ p @ '' is empty.'')],
        Inr None)"
  by (simp add: read_file_def log_read_file_def read_file_body_def)

lemma read_file_lines:
  "fs p = Some raw \<Longrightarrow> raw \<noteq> [] \<Longrightarrow>
   read_file fs (Path p) True
     = ([(INFO, ''Attempting to read file '' @ p), (INFO, ''Successfully read file '' @ p)],
        Inr (Some (map py_strip raw)))"
  by (simp add: read_file_def log_read_file_def read_file_body_def)

lemma main_columns_missing:
  "fs (source_columns cfg) = None \<Longrightarrow>
   main cfg fs = stop (Raised FileNotFoundError)
     [(INFO, ''Beginning the ETL process...''),
      (INFO, ''Attempting to read file '' @ source_columns cfg)]"
  by (simp add: main_def read_file_missing)

lemma main_columns_empty:
  "fs (source_columns cfg) = Some [] \<Longrightarrow>
   main cfg fs = stop SysExit
     [(INFO, ''Beginning the ETL process...''),
      (INFO, ''Attempting to read file '' @ source_columns cfg),
      (WARNING, ''File, '' @ source_columns cfg @ '' is empty.'')]"
  by (simp add: main_def read_file_empty)

lemma main_columns_malformed:
  "fs (source_columns cfg) = Some raw \<Longrightarrow> raw \<noteq> [] \<Longrightarrow> prep_cols (map py_strip raw) = Inl e \<Longrightarrow>
   main cfg fs = stop (Raised e)
     [(INFO, ''Beginning the ETL process...''),
      (INFO, ''Attempting to read file '' @ source_columns cfg),
      (INFO, ''Successfully read file '' @ source_columns cfg)]"
  by (simp add: main_def read_file_lines)

lemma main_data_missing:
  "fs (source_columns cfg) = Some raw \<Longrightarrow> raw \<noteq> [] \<Longrightarrow> prep_cols (map py_strip raw) = Inr names \<Longrightarrow>
   fs (source_data cfg) = None \<Longrightarrow>
   main cfg fs = stop (Raised FileNotFoundError)
     [(INFO, ''Beginning the ETL process...''),
      (INFO, ''Attempting to read file '' @ source_columns cfg),
      (INFO, ''Successfully read file '' @ source_columns cfg),
      (INFO, ''Attempting to read file '' @ source_data cfg)]"
  by (simp add: main_def read_file_lines read_file_missing)

lemma main_data_empty:
  "fs (source_columns cfg) = Some raw \<Longrightarrow> raw \<noteq> [] \<Longrightarrow> prep_cols (map py_strip raw) = Inr names \<Longrightarrow>
   fs (source_data cfg) = Some [] \<Longrightarrow>
   main cfg fs = stop SysExit
     [(INFO, ''Beginning the ETL process...''),
      (INFO, ''Attempting to read file '' @ source_columns cfg),
      (INFO, ''Successfully read file '' @ source_columns cfg),
      (INFO, ''Attempting to read file '' @ source_data cfg),
      (WARNING, ''File, '' @ source_data cfg @ '' is empty.'')]"
  by (simp add: main_def read_file_lines read_file_empty)

lemma main_composed:
  assumes "fs (source_columns cfg) = Some raw" "raw \<noteq> []" "prep_cols (map py_strip raw) = Inr names"
    and "fs (source_data cfg) = Some rows" "rows \<noteq> []"
  shows "halted (main cfg fs) = (if int (length rows) = expected_row_count cfg then Completed else SysExit)"
    and "written (main cfg fs)
           = Some (dest_data_filename cfg,
                   py_join [CHR 0x0A] (py_join '','' names # prep_data (map py_strip rows)))"
    and "loaded (main cfg fs)
           = (if int (length rows) = expected_row_count cfg then Some (dest_data_filename cfg) else None)"
    and "int (length rows) \<noteq> expected_row_count cfg \<Longrightarrow>
         last (logged (main cfg fs))
           = (CRITICAL, ''Row counts between source data and CSV file not matching!'')"
  using assms
  by (simp_all add: main_def read_file_lines compose_csv_data_def prep_data_def
      row_count_mismatch_def Let_def)

lemma main_written_nonempty:
  assumes "written (main cfg fs) = Some (name, content)"
  shows "\<exists>header row rows. content = py_join [CHR 0x0A] (header # row # rows)"
proof -
  { fix e l assume "main cfg fs = stop e l"
    with assms have False by (simp add: stop_def) }
  note not_stop = this
  obtain raw where raw: "fs (source_columns cfg) = Some raw" "raw \<noteq> []"
    using not_stop main_columns_missing main_columns_empty
    by (cases "fs (source_columns cfg)") (metis, metis)
  obtain names where names: "prep_cols (map py_strip raw) = Inr names"
    using not_stop main_columns_malformed [of fs cfg raw, OF raw]
    by (cases "prep_cols (map py_strip raw)") (metis, metis)
  obtain rows where rows: "fs (source_data cfg) = Some rows" "rows \<noteq> []"
    using not_stop main_data_missing [of fs cfg raw names, OF raw names] main_data_empty [of fs cfg raw names, OF raw names]
    by (cases "fs (source_data cfg)") (metis, metis)
  from rows(2) obtain r rs where "prep_data (map py_strip rows) = r # rs"
    by (cases rows) (auto simp: prep_data_def)
  with main_composed(2) [of fs cfg raw names rows, OF raw names rows] assms show ?thesis by auto
qed

lemma main_loaded_only_when_counts_agree:
  assumes "loaded (main cfg fs) = Some name"
  shows "halted (main cfg fs) = Completed
    \<and> (\<exists>rows. fs (source_data cfg) = Some rows \<and> int (length rows) = expected_row_count cfg)"
proof -
  { fix e l assume "main cfg fs = stop e l"
    with assms have False by (simp add: stop_def) }
  note not_stop = this
  obtain raw where raw: "fs (source_columns cfg) = Some raw" "raw \<noteq> []"
    using not_stop main_columns_missing main_columns_empty
    by (cases "fs (source_columns cfg)") (metis, metis)
  obtain names where names: "prep_cols (map py_strip raw) = Inr names"
    using not_stop main_columns_malformed [of fs cfg raw, OF raw]
    by (cases "prep_cols (map py_strip raw)") (metis, metis)
  obtain rows where rows: "fs (source_data cfg) = Some rows" "rows \<noteq> []"
    using not_stop main_data_missing [of fs cfg raw names, OF raw names]
      main_data_empty [of fs cfg raw names, OF raw names]
    by (cases "fs (source_data cfg)") (metis, metis)
  from main_composed(1,3) [of fs cfg raw names rows, OF raw names rows] assms rows(1)
  show ?thesis by (auto split: if_splits)
qed

section \<open>The claims\<close>

text \<open>
  C1. The scenario of the specification: the column lines \<open>1|name\<close>, \<open>0|id\<close> give the
  columns \<open>id\<close>, \<open>name\<close>; the data lines \<open>2|bob\<close>, \<open>1|alice\<close> give the rows \<open>2,bob\<close>,
  \<open>1,alice\<close>; composing the joined header with the rows gives three lines, header first,
  and a row count of 3; with 2 expected data rows the verification finds no mismatch. A
  run on files with these lines completes, writes the three lines and hands the file to
  the storage library.
\<close>

theorem scenario:
  "prep_cols [''1|name'', ''0|id''] = Inr [''id'', ''name'']
   \<and> prep_data [''2|bob'', ''1|alice''] = [''2,bob'', ''1,alice'']
   \<and> compose_csv_data (Some [''2,bob'', ''1,alice'']) (Some [py_join '','' [''id'', ''name'']])
       = ([], Some \<lparr>data = [''id,name'', ''2,bob'', ''1,alice''], row_count = 3\<rparr>)
   \<and> \<not> row_count_mismatch 3 2
   \<and> main \<lparr>source_columns = ''SOURCECOLUMNS.txt'', source_data = ''SOURCEDATA.txt'',
            dest_data_filename = ''SOURCEDATA_0.csv'', expected_row_count = 2\<rparr>
        [''SOURCECOLUMNS.txt'' \<mapsto> [''1|name'' @ [CHR 0x0A], ''0|id'' @ [CHR 0x0A]],
         ''SOURCEDATA.txt'' \<mapsto> [''2|bob'' @ [CHR 0x0A], ''1|alice'']]
     = \<lparr>halted = Completed,
        logged =
          [(INFO, ''Beginning the ETL process...''),
           (INFO, ''Attempting to read file SOURCECOLUMNS.txt''),
           (INFO, ''Successfully read file SOURCECOLUMNS.txt''),
           (INFO, ''Attempting to read file SOURCEDATA.txt''),
           (INFO, ''Successfully read file SOURCEDATA.txt''),
           (INFO, ''Prepping source data...''),
           (INFO, ''Composing CSV file...''),
           (INFO, ''Writing CSV data to file...''),
           (INFO, ''Running row count verification...''),
           (INFO, ''Row count verification succeeeded...''),
           (INFO, ''Attempting to move CSV file to destination...''),
           (INFO, ''Successfully moved file SOURCEDATA_0.csv...''),
           (INFO, ''ETL process complete...'')],
        written = Some (''SOURCEDATA_0.csv'',
                        ''id,name'' @ [CHR 0x0A] @ ''2,bob'' @ [CHR 0x0A] @ ''1,alice''),
        loaded = Some ''SOURCEDATA_0.csv''\<rparr>"
proof -
  have p: "prep_cols [''1|name'', ''0|id''] = Inr [''id'', ''name'']"
    by (simp add: eval_defs)
  have d: "prep_data [''2|bob'', ''1|alice''] = [''2,bob'', ''1,alice'']"
    by (simp add: prep_data_def)
  have c: "compose_csv_data (Some [''2,bob'', ''1,alice'']) (Some [py_join '','' [''id'', ''name'']])
       = ([], Some \<lparr>data = [''id,name'', ''2,bob'', ''1,alice''], row_count = 3\<rparr>)"
    by (simp add: compose_csv_data_def)
  have v: "\<not> row_count_mismatch 3 2"
    by (simp add: row_count_mismatch_def)
  have m: "main \<lparr>source_columns = ''SOURCECOLUMNS.txt'', source_data = ''SOURCEDATA.txt'',
            dest_data_filename = ''SOURCEDATA_0.csv'', expected_row_count = 2\<rparr>
        [''SOURCECOLUMNS.txt'' \<mapsto> [''1|name'' @ [CHR 0x0A], ''0|id'' @ [CHR 0x0A]],
         ''SOURCEDATA.txt'' \<mapsto> [''2|bob'' @ [CHR 0x0A], ''1|alice'']]
     = \<lparr>halted = Completed,
        logged =
          [(INFO, ''Beginning the ETL process...''),
           (INFO, ''Attempting to read file SOURCECOLUMNS.txt''),
           (INFO, ''Successfully read file SOURCECOLUMNS.txt''),
           (INFO, ''Attempting to read file SOURCEDATA.txt''),
           (INFO, ''Successfully read file SOURCEDATA.txt''),
           (INFO, ''Prepping source data...''),
           (INFO, ''Composing CSV file...''),
           (INFO, ''Writing CSV data to file...''),
           (INFO, ''Running row count verification...''),
           (INFO, ''Row count verification succeeeded...''),
           (INFO, ''Attempting to move CSV file to destination...''),
           (INFO, ''Successfully moved file SOURCEDATA_0.csv...''),
           (INFO, ''ETL process complete...'')],
        written = Some (''SOURCEDATA_0.csv'',
                        ''id,name'' @ [CHR 0x0A] @ ''2,bob'' @ [CHR 0x0A] @ ''1,alice''),
        loaded = Some ''SOURCEDATA_0.csv''\<rparr>"
    by (simp add: main_def read_file_def log_read_file_def read_file_body_def py_strip_def
        is_space_def p compose_csv_data_def prep_data_def row_count_mismatch_def Let_def)
  from p d c v m show ?thesis by blast
qed

text \<open>What the library's stable sort guarantees, in one place.\<close>

lemma sorted_stable_perm:
  "mset (sort_key f xs) = mset xs \<and> sorted (map f (sort_key f xs))
   \<and> (\<forall>k. filter (\<lambda>y. f y = k) (sort_key f xs) = filter (\<lambda>y. f y = k) xs)"
  by (simp add: sort_key_stable)

text \<open>
  C2. On column lines that each hold exactly one pipe and an integer before it,
  \<open>prep_cols\<close> returns the name parts of a rearrangement of the lines that is ascending
  in the ordinal and keeps lines of equal ordinal in their original order; the output is
  as long as the input.
\<close>

theorem prep_cols_sorted_stable:
  assumes "\<forall>l\<in>set cols. pipes l = 1 \<and> parses (first_segment l)"
  shows "\<exists>ls. prep_cols cols = Inr (map name_part ls)
           \<and> mset ls = mset cols
           \<and> sorted (map ordinal ls)
           \<and> (\<forall>k. filter (\<lambda>l. ordinal l = k) ls = filter (\<lambda>l. ordinal l = k) cols)
           \<and> length (map name_part ls) = length cols"
proof -
  have "prep_cols cols = Inr (map name_part (sort_key ordinal cols))"
    by (rule prep_cols_ok) (use assms in simp)
  then show ?thesis
    using sorted_stable_perm [of ordinal cols] by (intro exI [of _ "sort_key ordinal cols"]) simp
qed

text \<open>The hypothesis of C2 holds of three lines, two of them with the same ordinal.\<close>

theorem prep_cols_sorted_stable_witness:
  "list_all (\<lambda>l. pipes l = 1 \<and> parses (first_segment l)) [''1|name'', ''0|id'', ''1|age'']
   \<and> (\<exists>ls. prep_cols [''1|name'', ''0|id'', ''1|age''] = Inr (map name_part ls)
           \<and> mset ls = mset [''1|name'', ''0|id'', ''1|age'']
           \<and> sorted (map ordinal ls)
           \<and> (\<forall>k. filter (\<lambda>l. ordinal l = k) ls = filter (\<lambda>l. ordinal l = k) [''1|name'', ''0|id'', ''1|age''])
           \<and> length (map name_part ls) = length [''1|name'', ''0|id'', ''1|age''])
   \<and> prep_cols [''1|name'', ''0|id'', ''1|age''] = Inr [''id'', ''name'', ''age'']"
proof -
  have h: "\<forall>l\<in>set [''1|name'', ''0|id'', ''1|age'']. pipes l = 1 \<and> parses (first_segment l)"
    by (simp add: pipes_def parses_def first_segment_def eval_defs)
  have v: "prep_cols [''1|name'', ''0|id'', ''1|age''] = Inr [''id'', ''name'', ''age'']"
    by (simp add: eval_defs)
  from h prep_cols_sorted_stable [OF h] v show ?thesis
    unfolding list_all_iff by blast
qed

text \<open>
  C10. Column lines with two or more pipes whose first segment is an integer do not make
  \<open>prep_cols\<close> fail, alone or among lines with one pipe: the lines are sorted by the integer
  of the first segment and the second segment of each is returned, whatever follows it.
\<close>

theorem extra_segments_ignored:
  assumes "\<forall>l\<in>set cols. (pipes l = 1 \<or> 2 \<le> pipes l) \<and> parses (first_segment l)"
  shows "\<exists>ls. prep_cols cols = Inr (map (\<lambda>l. py_split CHR ''|'' l ! 1) ls)
           \<and> mset ls = mset cols
           \<and> sorted (map (\<lambda>l. case py_int (py_split CHR ''|'' l ! 0) of Inr k \<Rightarrow> k | Inl _ \<Rightarrow> 0) ls)
           \<and> (\<forall>l\<in>set ls. 2 \<le> pipes l \<longrightarrow> 3 \<le> length (py_split CHR ''|'' l))"
proof -
  have "prep_cols cols = Inr (map name_part (sort_key ordinal cols))"
    by (rule prep_cols_ok) (use assms in auto)
  moreover have "ordinal = (\<lambda>l. case py_int (py_split CHR ''|'' l ! 0) of Inr k \<Rightarrow> k | Inl _ \<Rightarrow> 0)"
    by (auto simp: ordinal_def first_segment_def hd_conv_nth py_split_not_Nil fun_eq_iff split: sum.splits)
  moreover have "\<forall>l\<in>set (sort_key ordinal cols). 2 \<le> pipes l \<longrightarrow> 3 \<le> length (py_split CHR ''|'' l)"
    by (simp add: length_py_split pipes_def)
  ultimately show ?thesis
    using sorted_stable_perm [of ordinal cols]
    by (intro exI [of _ "sort_key ordinal cols"]) (simp add: name_part_def [abs_def])
qed

text \<open>The hypothesis of C10 holds of lines with two, one and three pipes.\<close>

theorem extra_segments_ignored_witness:
  "list_all (\<lambda>l. (pipes l = 1 \<or> 2 \<le> pipes l) \<and> parses (first_segment l))
     [''2|name|extra'', ''1|age'', ''0|id|x|y'']
   \<and> pipes ''2|name|extra'' = 2 \<and> pipes ''0|id|x|y'' = 3
   \<and> prep_cols [''2|name|extra'', ''1|age'', ''0|id|x|y''] = Inr [''id'', ''age'', ''name'']
   \<and> (\<exists>ls. prep_cols [''2|name|extra'', ''1|age'', ''0|id|x|y'']
               = Inr (map (\<lambda>l. py_split CHR ''|'' l ! 1) ls)
           \<and> mset ls = mset [''2|name|extra'', ''1|age'', ''0|id|x|y'']
           \<and> sorted (map (\<lambda>l. case py_int (py_split CHR ''|'' l ! 0) of Inr k \<Rightarrow> k | Inl _ \<Rightarrow> 0) ls)
           \<and> (\<forall>l\<in>set ls. 2 \<le> pipes l \<longrightarrow> 3 \<le> length (py_split CHR ''|'' l)))"
proof -
  have h: "\<forall>l\<in>set [''2|name|extra'', ''1|age'', ''0|id|x|y''].
             (pipes l = 1 \<or> 2 \<le> pipes l) \<and> parses (first_segment l)"
    by (simp add: pipes_def parses_def first_segment_def eval_defs)
  have n: "pipes ''2|name|extra'' = 2 \<and> pipes ''0|id|x|y'' = 3"
    by (simp add: pipes_def)
  have v: "prep_cols [''2|name|extra'', ''1|age'', ''0|id|x|y''] = Inr [''id'', ''age'', ''name'']"
    by (simp add: eval_defs)
  from h n extra_segments_ignored [OF h] v show ?thesis
    unfolding list_all_iff by blast
qed

text \<open>
  C5, as stated, fails: a line that does not hold the pipe exactly once, but twice, is
  accepted.
\<close>

theorem over_long_line_accepted:
  "pipes ''7|qty|note'' \<noteq> 1 \<and> prep_cols [''7|qty|note''] = Inr [''qty'']"
  by (simp add: pipes_def eval_defs)

text \<open>
  C3, as stated, fails: a data line with a comma inside a field splits into more fields
  after the transformation than before it.
\<close>

theorem comma_in_field_breaks_round_trip:
  "py_split CHR '','' (prep_data [''a,b|c''] ! 0) = [''a'', ''b'', ''c'']
   \<and> py_split CHR ''|'' ''a,b|c'' = [''a,b'', ''c'']
   \<and> py_split CHR '','' (prep_data [''a,b|c''] ! 0) \<noteq> py_split CHR ''|'' ''a,b|c''"
  by (simp add: prep_data_def)

text \<open>
  C3, amended. For every data line that holds no comma, splitting its transformed row on
  the comma gives exactly the fields that splitting the line on the pipe gives.
\<close>

theorem round_trip_without_commas:
  assumes "i < length dat" and "CHR '','' \<notin> set (dat ! i)"
  shows "py_split CHR '','' (prep_data dat ! i) = py_split CHR ''|'' (dat ! i)"
  using assms by (simp add: prep_data_nth py_split_replaced)

text \<open>The hypotheses of C3 hold of a line with empty fields and a blank inside a field.\<close>

theorem round_trip_without_commas_witness:
  "(1::nat) < length [''2|bob'', ''1||alice smith|''] \<and> CHR '','' \<notin> set ([''2|bob'', ''1||alice smith|''] ! 1)
   \<and> py_split CHR '','' (prep_data [''2|bob'', ''1||alice smith|''] ! 1) = [''1'', '''', ''alice smith'', '''']
   \<and> py_split CHR '','' (prep_data [''2|bob'', ''1||alice smith|''] ! 1)
       = py_split CHR ''|'' ([''2|bob'', ''1||alice smith|''] ! 1)"
proof -
  have h1: "(1::nat) < length [''2|bob'', ''1||alice smith|'']" by simp
  have h2: "CHR '','' \<notin> set ([''2|bob'', ''1||alice smith|''] ! 1)" by simp
  have v: "py_split CHR '','' (prep_data [''2|bob'', ''1||alice smith|''] ! 1) = [''1'', '''', ''alice smith'', '''']"
    by (simp add: prep_data_def)
  from h1 h2 v round_trip_without_commas [OF h1 h2] show ?thesis by simp
qed

text \<open>
  C8, as stated, fails: a data line of two fields, one of them holding a comma, becomes a
  row of three comma-separated fields.
\<close>

theorem comma_in_field_adds_a_field:
  "length (prep_data [''x,y|z'']) = 1
   \<and> length (py_split CHR ''|'' ([''x,y|z''] ! 0)) = 2
   \<and> length (py_split CHR '','' (prep_data [''x,y|z''] ! 0)) = 3"
  by (simp add: prep_data_def)

text \<open>
  C8, amended. \<open>prep_data\<close> returns as many lines as it is given, the line at each
  position being the joined split of the input line at that position; the row has as many
  comma-separated fields as the input line has pipe-separated fields and commas together,
  hence as many fields as the input line when that holds no comma.
\<close>

theorem prep_data_length_and_fields:
  "length (prep_data dat) = length dat
   \<and> (\<forall>i<length dat.
         prep_data dat ! i = py_join '','' (py_split CHR ''|'' (dat ! i))
         \<and> length (py_split CHR '','' (prep_data dat ! i))
             = length (py_split CHR ''|'' (dat ! i)) + count_list (dat ! i) CHR '',''
         \<and> (CHR '','' \<notin> set (dat ! i) \<longrightarrow>
              length (py_split CHR '','' (prep_data dat ! i)) = length (py_split CHR ''|'' (dat ! i))))"
proof -
  have "length (py_split CHR '','' (prep_data dat ! i))
          = length (py_split CHR ''|'' (dat ! i)) + count_list (dat ! i) CHR '',''"
    if "i < length dat" for i
    using that by (simp add: prep_data_nth length_py_split count_list_replaced)
  moreover have "count_list s c = 0" if "c \<notin> set s" for s :: string and c
    using that by (induction s) auto
  ultimately show ?thesis by (simp add: prep_data_def)
qed

text \<open>C8 at two lines, one without and one with a comma.\<close>

theorem prep_data_length_and_fields_witness:
  "length (prep_data [''2|bob'', ''x,y|z'']) = 2
   \<and> prep_data [''2|bob'', ''x,y|z''] ! 0 = ''2,bob''
   \<and> length (py_split CHR '','' (prep_data [''2|bob'', ''x,y|z''] ! 0)) = 2
   \<and> length (py_split CHR ''|'' ([''2|bob'', ''x,y|z''] ! 0)) = 2
   \<and> length (py_split CHR '','' (prep_data [''2|bob'', ''x,y|z''] ! 1)) = 2 + 1"
proof -
  note t = prep_data_length_and_fields [of "[''2|bob'', ''x,y|z'']"]
  from t have "length (prep_data [''2|bob'', ''x,y|z'']) = 2"
    by simp
  moreover from t [THEN conjunct2, rule_format, of 0]
  have "prep_data [''2|bob'', ''x,y|z''] ! 0 = ''2,bob''
    \<and> length (py_split CHR '','' (prep_data [''2|bob'', ''x,y|z''] ! 0)) = 2"
    by simp
  moreover have "length (py_split CHR ''|'' ([''2|bob'', ''x,y|z''] ! 0)) = 2"
    by simp
  moreover from t [THEN conjunct2, rule_format, of 1]
  have "length (py_split CHR '','' (prep_data [''2|bob'', ''x,y|z''] ! 1)) = 2 + 1"
    by simp
  ultimately show ?thesis by simp
qed

text \<open>
  C6. \<open>compose_csv_data\<close> logs an error and returns \<open>None\<close> when the data or the columns
  are \<open>None\<close> or empty; otherwise it returns the columns followed by the data, as given,
  with their number of lines as row count.
\<close>

theorem compose_csv_data_spec:
  "((dat = None \<or> dat = Some [] \<or> cols = None \<or> cols = Some []) \<longrightarrow>
      compose_csv_data dat cols = ([(ERROR, ''Provide valid data and columns.'')], None))
   \<and> (\<forall>header body. cols = Some header \<and> header \<noteq> [] \<and> dat = Some body \<and> body \<noteq> [] \<longrightarrow>
        compose_csv_data dat cols
          = ([], Some \<lparr>data = header @ body, row_count = int (length header + length body)\<rparr>))"
  by (auto simp: compose_csv_data_def)

text \<open>C6 at an empty body, at a missing header, and at a body with a repeated row.\<close>

theorem compose_csv_data_spec_witness:
  "compose_csv_data (Some []) (Some [''id,name''])
     = ([(ERROR, ''Provide valid data and columns.'')], None)
   \<and> compose_csv_data (Some [''2,bob'']) None
     = ([(ERROR, ''Provide valid data and columns.'')], None)
   \<and> compose_csv_data (Some [''2,bob'', ''2,bob'', ''1,alice'']) (Some [''id,name''])
     = ([], Some \<lparr>data = [''id,name'', ''2,bob'', ''2,bob'', ''1,alice''], row_count = 4\<rparr>)"
  using compose_csv_data_spec [of "Some []" "Some [''id,name'']"]
    compose_csv_data_spec [of "Some [''2,bob'']" None]
    compose_csv_data_spec [of "Some [''2,bob'', ''2,bob'', ''1,alice'']" "Some [''id,name'']"]
  by simp

text \<open>
  C5, amended. When some column line holds no pipe, or a first segment that \<open>int\<close> does not
  accept, \<open>prep_cols\<close> raises: a ValueError when a first segment is not an integer, an
  IndexError otherwise. A run on such column lines ends with that exception right after the
  column file is read: the data file is not read, nothing is transformed, written or handed
  to the storage library. (Lines with two or more pipes are accepted, see C10.)
\<close>

theorem malformed_columns_raise:
  assumes "l \<in> set cols" and "pipes l = 0 \<or> \<not> parses (first_segment l)"
  shows "(\<exists>e. prep_cols cols = Inl e
            \<and> e = (if list_ex (\<lambda>l. \<not> parses (first_segment l)) cols then ValueError else IndexError)
            \<and> (\<forall>cfg fs raw. fs (source_columns cfg) = Some raw \<and> map py_strip raw = cols \<longrightarrow>
                  main cfg fs = stop (Raised e)
                    [(INFO, ''Beginning the ETL process...''),
                     (INFO, ''Attempting to read file '' @ source_columns cfg),
                     (INFO, ''Successfully read file '' @ source_columns cfg)]))"
proof -
  let ?e = "if list_ex (\<lambda>l. \<not> parses (first_segment l)) cols then ValueError else IndexError"
  have e: "prep_cols cols = Inl ?e"
  proof (cases "\<exists>l\<in>set cols. \<not> parses (first_segment l)")
    case True
    then show ?thesis by (simp add: prep_cols_unparseable list_ex_iff)
  next
    case False
    with assms have "\<exists>l\<in>set cols. pipes l = 0" by blast
    with False show ?thesis by (simp add: prep_cols_no_pipe list_ex_iff)
  qed
  have "main cfg fs = stop (Raised ?e)
          [(INFO, ''Beginning the ETL process...''),
           (INFO, ''Attempting to read file '' @ source_columns cfg),
           (INFO, ''Successfully read file '' @ source_columns cfg)]"
    if "fs (source_columns cfg) = Some raw" "map py_strip raw = cols" for cfg fs raw
  proof -
    from assms(1) that(2) have "raw \<noteq> []" by auto
    with that e show ?thesis by (simp add: main_columns_malformed)
  qed
  with e show ?thesis by blast
qed

text \<open>The hypotheses of C5 hold of a line without pipe and of a line with a word as ordinal.\<close>

theorem malformed_columns_raise_witness:
  "''5'' \<in> set [''0|id'', ''5''] \<and> pipes ''5'' = 0
   \<and> prep_cols [''0|id'', ''5''] = Inl IndexError
   \<and> ''abc|name'' \<in> set [''5'', ''abc|name''] \<and> \<not> parses (first_segment ''abc|name'')
   \<and> prep_cols [''5'', ''abc|name''] = Inl ValueError
   \<and> main \<lparr>source_columns = ''SOURCECOLUMNS.txt'', source_data = ''SOURCEDATA.txt'',
            dest_data_filename = ''SOURCEDATA_1.csv'', expected_row_count = 1000\<rparr>
        [''SOURCECOLUMNS.txt'' \<mapsto> [''5'', '' abc|name '']]
       = stop (Raised ValueError)
           [(INFO, ''Beginning the ETL process...''),
            (INFO, ''Attempting to read file SOURCECOLUMNS.txt''),
            (INFO, ''Successfully read file SOURCECOLUMNS.txt'')]"
proof -
  have a1: "''5'' \<in> set [''0|id'', ''5'']" by simp
  have a2: "pipes ''5'' = 0 \<or> \<not> parses (first_segment ''5'')" by (simp add: pipes_def)
  have p: "list_ex (\<lambda>l. \<not> parses (first_segment l)) [''0|id'', ''5''] = False"
    by (simp add: parses_def first_segment_def eval_defs)
  have b1: "''abc|name'' \<in> set [''5'', ''abc|name'']" by simp
  have b2: "\<not> parses (first_segment ''abc|name'')"
    by (simp add: parses_def first_segment_def eval_defs)
  then have b2': "pipes ''abc|name'' = 0 \<or> \<not> parses (first_segment ''abc|name'')" ..
  have q: "list_ex (\<lambda>l. \<not> parses (first_segment l)) [''5'', ''abc|name''] = True"
    using b2 by simp
  have s: "map py_strip [''5'', '' abc|name ''] = [''5'', ''abc|name'']"
    by (simp add: py_strip_def is_space_def)
  from malformed_columns_raise [OF a1 a2] p
  have r1: "prep_cols [''0|id'', ''5''] = Inl IndexError" by simp
  from malformed_columns_raise [OF b1 b2'] q
  have r2: "prep_cols [''5'', ''abc|name''] = Inl ValueError"
    and r3: "\<forall>cfg fs raw. fs (source_columns cfg) = Some raw \<and> map py_strip raw = [''5'', ''abc|name'']
       \<longrightarrow> main cfg fs = stop (Raised ValueError)
                    [(INFO, ''Beginning the ETL process...''),
                     (INFO, ''Attempting to read file '' @ source_columns cfg),
                     (INFO, ''Successfully read file '' @ source_columns cfg)]"
    by simp_all
  from r3 [rule_format, of "[''SOURCECOLUMNS.txt'' \<mapsto> [''5'', '' abc|name '']]"
      "\<lparr>source_columns = ''SOURCECOLUMNS.txt'', source_data = ''SOURCEDATA.txt'',
            dest_data_filename = ''SOURCEDATA_1.csv'', expected_row_count = 1000\<rparr>"
      "[''5'', '' abc|name '']"] s
  have r4: "main \<lparr>source_columns = ''SOURCECOLUMNS.txt'', source_data = ''SOURCEDATA.txt'',
            dest_data_filename = ''SOURCEDATA_1.csv'', expected_row_count = 1000\<rparr>
        [''SOURCECOLUMNS.txt'' \<mapsto> [''5'', '' abc|name '']]
       = stop (Raised ValueError)
           [(INFO, ''Beginning the ETL process...''),
            (INFO, ''Attempting to read file SOURCECOLUMNS.txt''),
            (INFO, ''Successfully read file SOURCECOLUMNS.txt'')]"
    by simp
  from a1 a2 b1 b2 r1 r2 r4 show ?thesis by (simp add: pipes_def)
qed

text \<open>
  C7, as stated, fails: with an empty data file and a column line whose ordinal is not an
  integer, the run ends with the ValueError of \<open>prep_cols\<close>, not at the exit taken for an
  empty file.
\<close>

theorem malformed_columns_before_empty_data:
  "[''SOURCECOLUMNS.txt'' \<mapsto> [''abc|name''], ''SOURCEDATA.txt'' \<mapsto> []] ''SOURCEDATA.txt'' = Some []
   \<and> halted (main \<lparr>source_columns = ''SOURCECOLUMNS.txt'', source_data = ''SOURCEDATA.txt'',
            dest_data_filename = ''SOURCEDATA_2.csv'', expected_row_count = 1000\<rparr>
        [''SOURCECOLUMNS.txt'' \<mapsto> [''abc|name''], ''SOURCEDATA.txt'' \<mapsto> []])
       = Raised ValueError
   \<and> halted (main \<lparr>source_columns = ''SOURCECOLUMNS.txt'', source_data = ''SOURCEDATA.txt'',
            dest_data_filename = ''SOURCEDATA_2.csv'', expected_row_count = 1000\<rparr>
        [''SOURCECOLUMNS.txt'' \<mapsto> [''abc|name''], ''SOURCEDATA.txt'' \<mapsto> []])
       \<noteq> SysExit"
proof -
  have "prep_cols (map py_strip [''abc|name'']) = Inl ValueError"
    by (simp add: py_strip_def is_space_def eval_defs)
  then have "main \<lparr>source_columns = ''SOURCECOLUMNS.txt'', source_data = ''SOURCEDATA.txt'',
            dest_data_filename = ''SOURCEDATA_2.csv'', expected_row_count = 1000\<rparr>
        [''SOURCECOLUMNS.txt'' \<mapsto> [''abc|name''], ''SOURCEDATA.txt'' \<mapsto> []]
      = stop (Raised ValueError)
     [(INFO, ''Beginning the ETL process...''),
      (INFO, ''Attempting to read file '' @ ''SOURCECOLUMNS.txt''),
      (INFO, ''Successfully read file '' @ ''SOURCECOLUMNS.txt'')]"
    by (subst main_columns_malformed [where raw = "[''abc|name'']" and e = ValueError]) simp_all
  then show ?thesis by (simp add: stop_def)
qed

text \<open>
  C7, amended. A run on an empty column file exits right after reading it, with the
  warning that the file is empty. A run on an empty data file writes nothing, hands
  nothing to the storage library and does not complete; it exits with the warning that the
  data file is empty when \<open>prep_cols\<close> accepted the column lines. Whatever a run writes
  holds a header and at least one row.
\<close>

theorem empty_input_writes_nothing:
  "(fs (source_columns cfg) = Some [] \<longrightarrow>
      main cfg fs = stop SysExit
        [(INFO, ''Beginning the ETL process...''),
         (INFO, ''Attempting to read file '' @ source_columns cfg),
         (WARNING, ''File, '' @ source_columns cfg @ '' is empty.'')])
   \<and> (fs (source_data cfg) = Some [] \<longrightarrow>
        written (main cfg fs) = None \<and> loaded (main cfg fs) = None \<and> halted (main cfg fs) \<noteq> Completed)
   \<and> (\<forall>raw names. fs (source_columns cfg) = Some raw \<and> raw \<noteq> []
          \<and> prep_cols (map py_strip raw) = Inr names \<and> fs (source_data cfg) = Some [] \<longrightarrow>
        main cfg fs = stop SysExit
          [(INFO, ''Beginning the ETL process...''),
           (INFO, ''Attempting to read file '' @ source_columns cfg),
           (INFO, ''Successfully read file '' @ source_columns cfg),
           (INFO, ''Attempting to read file '' @ source_data cfg),
           (WARNING, ''File, '' @ source_data cfg @ '' is empty.'')])
   \<and> (\<forall>name content. written (main cfg fs) = Some (name, content) \<longrightarrow>
        (\<exists>header row rows. content = py_join [CHR 0x0A] (header # row # rows)))"
proof -
  have "written (main cfg fs) = None \<and> loaded (main cfg fs) = None \<and> halted (main cfg fs) \<noteq> Completed"
    if d: "fs (source_data cfg) = Some []"
  proof (cases "fs (source_columns cfg)")
    case None
    then show ?thesis by (simp add: main_columns_missing stop_def)
  next
    case (Some raw)
    show ?thesis
    proof (cases "raw = []")
      case True
      with Some show ?thesis by (simp add: main_columns_empty stop_def)
    next
      case False
      show ?thesis
      proof (cases "prep_cols (map py_strip raw)")
        case (Inl e)
        with Some False show ?thesis by (simp add: main_columns_malformed stop_def)
      next
        case (Inr names)
        with Some False d show ?thesis by (simp add: main_data_empty stop_def)
      qed
    qed
  qed
  then show ?thesis
    using main_written_nonempty [of cfg fs]
    by (simp add: main_columns_empty main_data_empty)
qed

text \<open>C7 at an empty column file and at an empty data file.\<close>

theorem empty_input_writes_nothing_witness:
  "main \<lparr>source_columns = ''SOURCECOLUMNS.txt'', source_data = ''SOURCEDATA.txt'',
            dest_data_filename = ''SOURCEDATA_3.csv'', expected_row_count = 1000\<rparr>
        [''SOURCECOLUMNS.txt'' \<mapsto> [], ''SOURCEDATA.txt'' \<mapsto> [''2|bob'']]
     = stop SysExit
        [(INFO, ''Beginning the ETL process...''),
         (INFO, ''Attempting to read file SOURCECOLUMNS.txt''),
         (WARNING, ''File, SOURCECOLUMNS.txt is empty.'')]
   \<and> main \<lparr>source_columns = ''SOURCECOLUMNS.txt'', source_data = ''SOURCEDATA.txt'',
            dest_data_filename = ''SOURCEDATA_3.csv'', expected_row_count = 1000\<rparr>
        [''SOURCECOLUMNS.txt'' \<mapsto> [''0|id''], ''SOURCEDATA.txt'' \<mapsto> []]
     = stop SysExit
        [(INFO, ''Beginning the ETL process...''),
         (INFO, ''Attempting to read file SOURCECOLUMNS.txt''),
         (INFO, ''Successfully read file SOURCECOLUMNS.txt''),
         (INFO, ''Attempting to read file SOURCEDATA.txt''),
         (WARNING, ''File, SOURCEDATA.txt is empty.'')]
   \<and> written (main \<lparr>source_columns = ''SOURCECOLUMNS.txt'', source_data = ''SOURCEDATA.txt'',
            dest_data_filename = ''SOURCEDATA_3.csv'', expected_row_count = 1000\<rparr>
        [''SOURCECOLUMNS.txt'' \<mapsto> [''0|id''], ''SOURCEDATA.txt'' \<mapsto> []]) = None"
proof -
  let ?cfg = "\<lparr>source_columns = ''SOURCECOLUMNS.txt'', source_data = ''SOURCEDATA.txt'',
            dest_data_filename = ''SOURCEDATA_3.csv'', expected_row_count = 1000\<rparr>"
  let ?fs1 = "[''SOURCECOLUMNS.txt'' \<mapsto> [], ''SOURCEDATA.txt'' \<mapsto> [''2|bob'']]"
  let ?fs2 = "[''SOURCECOLUMNS.txt'' \<mapsto> [''0|id''], ''SOURCEDATA.txt'' \<mapsto> []]"
  have p: "prep_cols (map py_strip [''0|id'']) = Inr [''id'']"
    by (simp add: py_strip_def is_space_def eval_defs)
  have c1: "?fs1 (source_columns ?cfg) = Some []" by simp
  have c2: "?fs2 (source_columns ?cfg) = Some [''0|id'']" "?fs2 (source_data ?cfg) = Some []"
    by simp_all
  from empty_input_writes_nothing [of ?fs1 ?cfg, THEN conjunct1, rule_format, OF c1]
  have r1: "main ?cfg ?fs1 = stop SysExit
        [(INFO, ''Beginning the ETL process...''),
         (INFO, ''Attempting to read file SOURCECOLUMNS.txt''),
         (WARNING, ''File, SOURCECOLUMNS.txt is empty.'')]"
    by simp
  from empty_input_writes_nothing [of ?fs2 ?cfg, THEN conjunct2, THEN conjunct2, THEN conjunct1,
      rule_format, of "[''0|id'']" "[''id'']"] c2 p
  have r2: "main ?cfg ?fs2 = stop SysExit
        [(INFO, ''Beginning the ETL process...''),
         (INFO, ''Attempting to read file SOURCECOLUMNS.txt''),
         (INFO, ''Successfully read file SOURCECOLUMNS.txt''),
         (INFO, ''Attempting to read file SOURCEDATA.txt''),
         (WARNING, ''File, SOURCEDATA.txt is empty.'')]"
    by simp
  from empty_input_writes_nothing [of ?fs2 ?cfg, THEN conjunct2, THEN conjunct1, rule_format, OF c2(2)]
  have r3: "written (main ?cfg ?fs2) = None" by simp
  from r1 r2 r3 show ?thesis by simp
qed

text \<open>
  C4, as stated, fails in one part: the failure of the verification carries neither count.
  A run with two data rows against 3 expected rows logs one fixed critical message and
  exits; against 5 expected rows the run leaves exactly the same outcome behind.
\<close>

theorem mismatch_report_names_no_count:
  "main \<lparr>source_columns = ''SOURCECOLUMNS.txt'', source_data = ''SOURCEDATA.txt'',
          dest_data_filename = ''SOURCEDATA_4.csv'', expected_row_count = 3\<rparr>
        [''SOURCECOLUMNS.txt'' \<mapsto> [''1|name'', ''0|id''], ''SOURCEDATA.txt'' \<mapsto> [''2|bob'', ''1|alice'']]
     = \<lparr>halted = SysExit,
        logged =
          [(INFO, ''Beginning the ETL process...''),
           (INFO, ''Attempting to read file SOURCECOLUMNS.txt''),
           (INFO, ''Successfully read file SOURCECOLUMNS.txt''),
           (INFO, ''Attempting to read file SOURCEDATA.txt''),
           (INFO, ''Successfully read file SOURCEDATA.txt''),
           (INFO, ''Prepping source data...''),
           (INFO, ''Composing CSV file...''),
           (INFO, ''Writing CSV data to file...''),
           (INFO, ''Running row count verification...''),
           (CRITICAL, ''Row counts between source data and CSV file not matching!'')],
        written = Some (''SOURCEDATA_4.csv'', ''id,name'' @ [CHR 0x0A] @ ''2,bob'' @ [CHR 0x0A] @ ''1,alice''),
        loaded = None\<rparr>
   \<and> main \<lparr>source_columns = ''SOURCECOLUMNS.txt'', source_data = ''SOURCEDATA.txt'',
          dest_data_filename = ''SOURCEDATA_4.csv'', expected_row_count = 3\<rparr>
        [''SOURCECOLUMNS.txt'' \<mapsto> [''1|name'', ''0|id''], ''SOURCEDATA.txt'' \<mapsto> [''2|bob'', ''1|alice'']]
     = main \<lparr>source_columns = ''SOURCECOLUMNS.txt'', source_data = ''SOURCEDATA.txt'',
          dest_data_filename = ''SOURCEDATA_4.csv'', expected_row_count = 5\<rparr>
        [''SOURCECOLUMNS.txt'' \<mapsto> [''1|name'', ''0|id''], ''SOURCEDATA.txt'' \<mapsto> [''2|bob'', ''1|alice'']]"
proof -
  have s: "py_strip ''1|name'' = ''1|name''" "py_strip ''0|id'' = ''0|id''"
    "py_strip ''2|bob'' = ''2|bob''" "py_strip ''1|alice'' = ''1|alice''"
    by (simp_all add: py_strip_def is_space_def)
  have p: "prep_cols [''1|name'', ''0|id''] = Inr [''id'', ''name'']"
    by (simp add: eval_defs)
  have "main \<lparr>source_columns = ''SOURCECOLUMNS.txt'', source_data = ''SOURCEDATA.txt'',
          dest_data_filename = ''SOURCEDATA_4.csv'', expected_row_count = e\<rparr>
        [''SOURCECOLUMNS.txt'' \<mapsto> [''1|name'', ''0|id''], ''SOURCEDATA.txt'' \<mapsto> [''2|bob'', ''1|alice'']]
     = \<lparr>halted = SysExit,
        logged =
          [(INFO, ''Beginning the ETL process...''),
           (INFO, ''Attempting to read file SOURCECOLUMNS.txt''),
           (INFO, ''Successfully read file SOURCECOLUMNS.txt''),
           (INFO, ''Attempting to read file SOURCEDATA.txt''),
           (INFO, ''Successfully read file SOURCEDATA.txt''),
           (INFO, ''Prepping source data...''),
           (INFO, ''Composing CSV file...''),
           (INFO, ''Writing CSV data to file...''),
           (INFO, ''Running row count verification...''),
           (CRITICAL, ''Row counts between source data and CSV file not matching!'')],
        written = Some (''SOURCEDATA_4.csv'', ''id,name'' @ [CHR 0x0A] @ ''2,bob'' @ [CHR 0x0A] @ ''1,alice''),
        loaded = None\<rparr>" if "e \<noteq> 2" for e :: int
    using that
    by (simp add: main_def read_file_def log_read_file_def read_file_body_def s p
        compose_csv_data_def prep_data_def row_count_mismatch_def Let_def)
  from this [of 3] this [of 5] show ?thesis by simp
qed

text \<open>
  C4, amended. The verification finds no mismatch exactly when the row count less one
  equals the expected count. A run that composes an artifact writes it; when its row count
  less one equals the expected count the run completes and hands the file to the storage
  library, and on any other count it logs a critical message, exits and hands nothing
  over. No run hands a file over unless the counts agree.
\<close>

theorem row_count_gate:
  "(row_count_mismatch rc expected \<longleftrightarrow> rc - 1 \<noteq> expected)
   \<and> (\<forall>raw names rows.
         fs (source_columns cfg) = Some raw \<and> raw \<noteq> [] \<and> prep_cols (map py_strip raw) = Inr names
         \<and> fs (source_data cfg) = Some rows \<and> rows \<noteq> [] \<longrightarrow>
         (\<exists>r. snd (compose_csv_data (Some (prep_data (map py_strip rows))) (Some [py_join '','' names]))
                 = Some r
            \<and> written (main cfg fs) = Some (dest_data_filename cfg, py_join [CHR 0x0A] (data r))
            \<and> (row_count r - 1 = expected_row_count cfg \<longrightarrow>
                 halted (main cfg fs) = Completed
                 \<and> loaded (main cfg fs) = Some (dest_data_filename cfg))
            \<and> (row_count r - 1 \<noteq> expected_row_count cfg \<longrightarrow>
                 halted (main cfg fs) = SysExit
                 \<and> loaded (main cfg fs) = None
                 \<and> last (logged (main cfg fs))
                     = (CRITICAL, ''Row counts between source data and CSV file not matching!''))))
   \<and> (\<forall>name. loaded (main cfg fs) = Some name \<longrightarrow>
         halted (main cfg fs) = Completed
         \<and> (\<exists>rows. fs (source_data cfg) = Some rows \<and> int (length rows) = expected_row_count cfg))"
proof -
  have a: "row_count_mismatch rc expected \<longleftrightarrow> rc - 1 \<noteq> expected"
    by (simp add: row_count_mismatch_def)
  have b: "\<exists>r. snd (compose_csv_data (Some (prep_data (map py_strip rows))) (Some [py_join '','' names]))
                 = Some r
            \<and> written (main cfg fs) = Some (dest_data_filename cfg, py_join [CHR 0x0A] (data r))
            \<and> (row_count r - 1 = expected_row_count cfg \<longrightarrow>
                 halted (main cfg fs) = Completed
                 \<and> loaded (main cfg fs) = Some (dest_data_filename cfg))
            \<and> (row_count r - 1 \<noteq> expected_row_count cfg \<longrightarrow>
                 halted (main cfg fs) = SysExit
                 \<and> loaded (main cfg fs) = None
                 \<and> last (logged (main cfg fs))
                     = (CRITICAL, ''Row counts between source data and CSV file not matching!''))"
    if h: "fs (source_columns cfg) = Some raw" "raw \<noteq> []" "prep_cols (map py_strip raw) = Inr names"
      "fs (source_data cfg) = Some rows" "rows \<noteq> []" for raw names rows
  proof -
    let ?r = "\<lparr>data = py_join '','' names # prep_data (map py_strip rows),
               row_count = int (length rows) + 1\<rparr>"
    have "snd (compose_csv_data (Some (prep_data (map py_strip rows))) (Some [py_join '','' names]))
            = Some ?r"
      using h(5) by (simp add: compose_csv_data_def prep_data_def)
    moreover note main_composed [of fs cfg raw names rows, OF h]
    ultimately show ?thesis by (intro exI [of _ ?r]) simp
  qed
  from a b main_loaded_only_when_counts_agree [of cfg fs] show ?thesis by blast
qed

text \<open>C4 at the scenario's files, with 2 and with 1 expected rows.\<close>

theorem row_count_gate_witness:
  "\<not> row_count_mismatch 3 2 \<and> row_count_mismatch 3 3
   \<and> halted (main \<lparr>source_columns = ''SOURCECOLUMNS.txt'', source_data = ''SOURCEDATA.txt'',
          dest_data_filename = ''SOURCEDATA_5.csv'', expected_row_count = 2\<rparr>
        [''SOURCECOLUMNS.txt'' \<mapsto> [''1|name'', ''0|id''], ''SOURCEDATA.txt'' \<mapsto> [''2|bob'', ''1|alice'']])
       = Completed
   \<and> loaded (main \<lparr>source_columns = ''SOURCECOLUMNS.txt'', source_data = ''SOURCEDATA.txt'',
          dest_data_filename = ''SOURCEDATA_5.csv'', expected_row_count = 2\<rparr>
        [''SOURCECOLUMNS.txt'' \<mapsto> [''1|name'', ''0|id''], ''SOURCEDATA.txt'' \<mapsto> [''2|bob'', ''1|alice'']])
       = Some ''SOURCEDATA_5.csv''
   \<and> halted (main \<lparr>source_columns = ''SOURCECOLUMNS.txt'', source_data = ''SOURCEDATA.txt'',
          dest_data_filename = ''SOURCEDATA_5.csv'', expected_row_count = 1\<rparr>
        [''SOURCECOLUMNS.txt'' \<mapsto> [''1|name'', ''0|id''], ''SOURCEDATA.txt'' \<mapsto> [''2|bob'', ''1|alice'']])
       = SysExit
   \<and> loaded (main \<lparr>source_columns = ''SOURCECOLUMNS.txt'', source_data = ''SOURCEDATA.txt'',
          dest_data_filename = ''SOURCEDATA_5.csv'', expected_row_count = 1\<rparr>
        [''SOURCECOLUMNS.txt'' \<mapsto> [''1|name'', ''0|id''], ''SOURCEDATA.txt'' \<mapsto> [''2|bob'', ''1|alice'']])
       = None"
proof -
  let ?fs = "[''SOURCECOLUMNS.txt'' \<mapsto> [''1|name'', ''0|id''], ''SOURCEDATA.txt'' \<mapsto> [''2|bob'', ''1|alice'']]"
  let ?cfg = "\<lambda>e. \<lparr>source_columns = ''SOURCECOLUMNS.txt'', source_data = ''SOURCEDATA.txt'',
          dest_data_filename = ''SOURCEDATA_5.csv'', expected_row_count = e\<rparr>"
  have s: "py_strip ''1|name'' = ''1|name''" "py_strip ''0|id'' = ''0|id''"
    "py_strip ''2|bob'' = ''2|bob''" "py_strip ''1|alice'' = ''1|alice''"
    by (simp_all add: py_strip_def is_space_def)
  have p: "prep_cols [''1|name'', ''0|id''] = Inr [''id'', ''name'']"
    by (simp add: eval_defs)
  have h: "?fs (source_columns (?cfg e)) = Some [''1|name'', ''0|id''] \<and> [''1|name'', ''0|id''] \<noteq> []
      \<and> prep_cols (map py_strip [''1|name'', ''0|id'']) = Inr [''id'', ''name'']
      \<and> ?fs (source_data (?cfg e)) = Some [''2|bob'', ''1|alice''] \<and> [''2|bob'', ''1|alice''] \<noteq> []" for e
    by (simp add: s p)
  have c: "snd (compose_csv_data (Some (prep_data (map py_strip [''2|bob'', ''1|alice''])))
                (Some [py_join '','' [''id'', ''name'']]))
           = Some \<lparr>data = [''id,name'', ''2,bob'', ''1,alice''], row_count = 3\<rparr>"
    by (simp add: compose_csv_data_def prep_data_def s)
  from row_count_gate [of 3 2 ?fs "?cfg 2", THEN conjunct1]
  have m1: "\<not> row_count_mismatch 3 2" by simp
  from row_count_gate [of 3 3 ?fs "?cfg 2", THEN conjunct1]
  have m2: "row_count_mismatch 3 3" by simp
  from row_count_gate [of 3 2 ?fs "?cfg 2", THEN conjunct2, THEN conjunct1, rule_format, OF h] c
  have r2: "halted (main (?cfg 2) ?fs) = Completed \<and> loaded (main (?cfg 2) ?fs) = Some ''SOURCEDATA_5.csv''"
    by auto
  from row_count_gate [of 3 2 ?fs "?cfg 1", THEN conjunct2, THEN conjunct1, rule_format, OF h] c
  have r1: "halted (main (?cfg 1) ?fs) = SysExit \<and> loaded (main (?cfg 1) ?fs) = None"
    by auto
  from m1 m2 r1 r2 show ?thesis by simp
qed

text \<open>
  C9. Two runs that find the same lines in their column files and in their data files and
  expect the same number of rows end the same way and write the same content, whatever the
  paths, the name of the output file and the rest of the file system are.
\<close>

theorem same_inputs_same_artifact:
  assumes "fs1 (source_columns cfg1) = fs2 (source_columns cfg2)"
    and "fs1 (source_data cfg1) = fs2 (source_data cfg2)"
    and "expected_row_count cfg1 = expected_row_count cfg2"
  shows "map_option snd (written (main cfg1 fs1)) = map_option snd (written (main cfg2 fs2))
    \<and> halted (main cfg1 fs1) = halted (main cfg2 fs2)
    \<and> (loaded (main cfg1 fs1) = None) = (loaded (main cfg2 fs2) = None)"
proof (cases "fs1 (source_columns cfg1)")
  case None
  with assms(1) have "fs2 (source_columns cfg2) = None" by simp
  with None show ?thesis by (simp add: main_columns_missing stop_def)
next
  case (Some raw)
  with assms(1) have c2: "fs2 (source_columns cfg2) = Some raw" by simp
  show ?thesis
  proof (cases "raw = []")
    case True
    with Some c2 show ?thesis by (simp add: main_columns_empty stop_def)
  next
    case False
    show ?thesis
    proof (cases "prep_cols (map py_strip raw)")
      case (Inl e)
      from main_columns_malformed [of fs1 cfg1 raw e, OF Some False Inl]
        main_columns_malformed [of fs2 cfg2 raw e, OF c2 False Inl]
      show ?thesis by (simp add: stop_def)
    next
      case (Inr names)
      show ?thesis
      proof (cases "fs1 (source_data cfg1)")
        case None
        with assms(2) have d2: "fs2 (source_data cfg2) = None" by simp
        from main_data_missing [of fs1 cfg1 raw names, OF \<open>fs1 (source_columns cfg1) = Some raw\<close> False Inr None]
          main_data_missing [of fs2 cfg2 raw names, OF c2 False Inr d2]
        show ?thesis by (simp add: stop_def)
      next
        case (Some rows)
        note d1 = this
        with assms(2) have d2: "fs2 (source_data cfg2) = Some rows" by simp
        show ?thesis
        proof (cases "rows = []")
          case True
          from main_data_empty [of fs1 cfg1 raw names, OF \<open>fs1 (source_columns cfg1) = Some raw\<close> False Inr d1 [unfolded True]]
            main_data_empty [of fs2 cfg2 raw names, OF c2 False Inr d2 [unfolded True]]
          show ?thesis by (simp add: stop_def)
        next
          case nonempty: False
          from main_composed(1-3) [of fs1 cfg1 raw names rows, OF \<open>fs1 (source_columns cfg1) = Some raw\<close> False Inr d1 nonempty]
            main_composed(1-3) [of fs2 cfg2 raw names rows, OF c2 False Inr d2 nonempty] assms(3)
          show ?thesis by simp
        qed
      qed
    qed
  qed
qed

text \<open>C9 at two runs with different paths and output names.\<close>

theorem same_inputs_same_artifact_witness:
  "map_option snd (written (main \<lparr>source_columns = ''SOURCECOLUMNS.txt'', source_data = ''SOURCEDATA.txt'',
          dest_data_filename = ''SOURCEDATA_6.csv'', expected_row_count = 2\<rparr>
        [''SOURCECOLUMNS.txt'' \<mapsto> [''1|name'', ''0|id''], ''SOURCEDATA.txt'' \<mapsto> [''2|bob'', ''1|alice'']]))
   = map_option snd (written (main \<lparr>source_columns = ''cols.txt'', source_data = ''rows.txt'',
          dest_data_filename = ''SOURCEDATA_7.csv'', expected_row_count = 2\<rparr>
        [''cols.txt'' \<mapsto> [''1|name'', ''0|id''], ''rows.txt'' \<mapsto> [''2|bob'', ''1|alice''],
         ''other.txt'' \<mapsto> [''x'']]))
   \<and> halted (main \<lparr>source_columns = ''SOURCECOLUMNS.txt'', source_data = ''SOURCEDATA.txt'',
          dest_data_filename = ''SOURCEDATA_6.csv'', expected_row_count = 2\<rparr>
        [''SOURCECOLUMNS.txt'' \<mapsto> [''1|name'', ''0|id''], ''SOURCEDATA.txt'' \<mapsto> [''2|bob'', ''1|alice'']])
   = halted (main \<lparr>source_columns = ''cols.txt'', source_data = ''rows.txt'',
          dest_data_filename = ''SOURCEDATA_7.csv'', expected_row_count = 2\<rparr>
        [''cols.txt'' \<mapsto> [''1|name'', ''0|id''], ''rows.txt'' \<mapsto> [''2|bob'', ''1|alice''],
         ''other.txt'' \<mapsto> [''x'']])"
proof -
  let ?c1 = "\<lparr>source_columns = ''SOURCECOLUMNS.txt'', source_data = ''SOURCEDATA.txt'',
          dest_data_filename = ''SOURCEDATA_6.csv'', expected_row_count = 2\<rparr>"
  let ?f1 = "[''SOURCECOLUMNS.txt'' \<mapsto> [''1|name'', ''0|id''], ''SOURCEDATA.txt'' \<mapsto> [''2|bob'', ''1|alice'']]"
  let ?c2 = "\<lparr>source_columns = ''cols.txt'', source_data = ''rows.txt'',
          dest_data_filename = ''SOURCEDATA_7.csv'', expected_row_count = 2\<rparr>"
  let ?f2 = "[''cols.txt'' \<mapsto> [''1|name'', ''0|id''], ''rows.txt'' \<mapsto> [''2|bob'', ''1|alice''],
         ''other.txt'' \<mapsto> [''x'']]"
  have a: "?f1 (source_columns ?c1) = ?f2 (source_columns ?c2)" by simp
  have b: "?f1 (source_data ?c1) = ?f2 (source_data ?c2)" by simp
  have c: "expected_row_count ?c1 = expected_row_count ?c2" by simp
  from same_inputs_same_artifact [OF a b c] show ?thesis by blast
qed

end
